theory Spec2Isabelle
  imports Complex_Main
begin

section \<open>Voice payment backend: amount extraction and the payment handlers\<close>

text \<open>
  A shallow embedding of \<^verbatim>\<open>src/backend.py\<close>: the function \<^verbatim>\<open>extract_amount\<close> and the
  request handlers \<^verbatim>\<open>create_order\<close> and \<^verbatim>\<open>verify_payment\<close>.

  A Python \<^verbatim>\<open>str\<close> is a sequence of code points. The model takes a text as a
  \<^typ>\<open>string\<close> whose characters are the code points below 256 (the Latin-1 block of
  Unicode); the character classes of Python's Unicode tables are written out for this
  whole range. Python's integers are unbounded and become \<^typ>\<open>int\<close>. \<^verbatim>\<open>int(s)\<close> on a
  run of decimal digits is the number the run denotes, and raises ValueError on a run
  longer than the interpreter's limit for decimal strings (4300 digits, the default of
  CPython).
\<close>

subsection \<open>Exceptions\<close>

text \<open>
  The exceptions the code can meet. \<open>ProviderError\<close> stands for the errors of the
  payment client other than a failed signature check.
\<close>

datatype exn =
    SignatureVerificationError
  | AttributeError
  | TypeError
  | KeyError string
  | ValueError
  | OverflowError
  | ProviderError string

subsection \<open>Character classes\<close>

definition code :: "char \<Rightarrow> nat" where
  "code c = of_char c"

definition is_digit :: "char \<Rightarrow> bool" where
  \<comment> \<open>the class \<^verbatim>\<open>\d\<close> of \<^verbatim>\<open>re\<close> on a str pattern\<close>
  "is_digit c \<longleftrightarrow> 48 \<le> code c \<and> code c \<le> 57"

definition is_space :: "char \<Rightarrow> bool" where
  \<comment> \<open>\<^verbatim>\<open>str.isspace\<close>, which is also the class \<^verbatim>\<open>\s\<close> and the separator of \<^verbatim>\<open>str.split()\<close>\<close>
  "is_space c \<longleftrightarrow>
     (9 \<le> code c \<and> code c \<le> 13) \<or> (28 \<le> code c \<and> code c \<le> 32) \<or>
     code c = 133 \<or> code c = 160"

definition is_word :: "char \<Rightarrow> bool" where
  \<comment> \<open>the class \<^verbatim>\<open>\w\<close>: alphanumeric code points and the underscore\<close>
  "is_word c \<longleftrightarrow>
     (48 \<le> code c \<and> code c \<le> 57) \<or> (65 \<le> code c \<and> code c \<le> 90) \<or> code c = 95 \<or>
     (97 \<le> code c \<and> code c \<le> 122) \<or> code c = 170 \<or> code c = 178 \<or> code c = 179 \<or>
     code c = 181 \<or> code c = 185 \<or> code c = 186 \<or> (188 \<le> code c \<and> code c \<le> 190) \<or>
     (192 \<le> code c \<and> code c \<le> 214) \<or> (216 \<le> code c \<and> code c \<le> 246) \<or>
     (248 \<le> code c \<and> code c \<le> 255)"

definition lower_char :: "char \<Rightarrow> char" where
  \<comment> \<open>\<^verbatim>\<open>str.lower\<close> on one code point\<close>
  "lower_char c =
     (if (65 \<le> code c \<and> code c \<le> 90) \<or> (192 \<le> code c \<and> code c \<le> 214) \<or>
         (216 \<le> code c \<and> code c \<le> 222)
      then char_of (code c + 32) else c)"

definition py_lower :: "string \<Rightarrow> string" where
  "py_lower text = map lower_char text"

subsection \<open>Library functions used by \<^verbatim>\<open>extract_amount\<close>\<close>

text \<open>
  The maximal runs of characters of a class, from left to right. Both
  \<^verbatim>\<open>re.findall(r'\d+', text)\<close> (greedy, non-overlapping matches) and \<^verbatim>\<open>text.split()\<close>
  (the maximal runs of non-whitespace) are instances.
\<close>

function runs :: "(char \<Rightarrow> bool) \<Rightarrow> string \<Rightarrow> string list" where
  "runs P [] = []"
| "runs P (c # cs) =
     (if P c then (c # takeWhile P cs) # runs P (dropWhile P cs) else runs P cs)"
  by pat_completeness auto
termination
  by (relation "measure (\<lambda>(P, cs). length cs)")
     (auto simp: less_Suc_eq_le length_dropWhile_le)

definition findall_digits :: "string \<Rightarrow> string list" where
  "findall_digits text = runs is_digit text"

definition py_split :: "string \<Rightarrow> string list" where
  "py_split text = runs (\<lambda>c. \<not> is_space c) text"

definition digit_value :: "char \<Rightarrow> int" where
  "digit_value c = int (code c) - 48"

definition max_str_digits :: nat where
  \<comment> \<open>\<^verbatim>\<open>sys.int_info.default_max_str_digits\<close>\<close>
  "max_str_digits = 4300"

definition py_int_str :: "string \<Rightarrow> exn + int" where
  \<comment> \<open>\<^verbatim>\<open>int(s)\<close> for a non-empty run of decimal digits: every digit counts toward the
      limit, leading zeros too; the value is built from the most significant digit on\<close>
  "py_int_str s =
     (if max_str_digits < length s then Inl ValueError
      else Inr (foldl (\<lambda>n c. 10 * n + digit_value c) 0 s))"

definition strip_punct :: "string \<Rightarrow> string" where
  \<comment> \<open>\<^verbatim>\<open>re.sub(r'[^\w\s]', '', word)\<close>\<close>
  "strip_punct word = filter (\<lambda>c. is_word c \<or> is_space c) word"

subsection \<open>\<^verbatim>\<open>extract_amount\<close>\<close>

definition words_to_numbers :: "(string \<times> int) list" where
  "words_to_numbers =
    [(''zero'', 0), (''one'', 1), (''two'', 2), (''three'', 3), (''four'', 4),
     (''five'', 5), (''six'', 6), (''seven'', 7), (''eight'', 8), (''nine'', 9),
     (''ten'', 10), (''eleven'', 11), (''twelve'', 12), (''thirteen'', 13),
     (''fourteen'', 14), (''fifteen'', 15), (''sixteen'', 16), (''seventeen'', 17),
     (''eighteen'', 18), (''nineteen'', 19), (''twenty'', 20), (''thirty'', 30),
     (''forty'', 40), (''fifty'', 50), (''sixty'', 60), (''seventy'', 70),
     (''eighty'', 80), (''ninety'', 90), (''hundred'', 100), (''thousand'', 1000)]"

text \<open>One iteration of the loop over \<^verbatim>\<open>words\<close>, on the pair \<^verbatim>\<open>(total, current)\<close>.\<close>

definition word_step :: "int \<times> int \<Rightarrow> string \<Rightarrow> int \<times> int" where
  "word_step st word0 =
     (let (total, current) = st;
          word = strip_punct word0
      in case map_of words_to_numbers word of
           None \<Rightarrow> (total, current)
         | Some num \<Rightarrow>
             if num = 100 then (total, if current \<noteq> 0 then current * 100 else 100)
             else if num = 1000 then
               (let current' = (if current \<noteq> 0 then current else 1) * 1000
                in (total + current', 0))
             else (total, current + num))"

fun word_loop :: "int \<times> int \<Rightarrow> string list \<Rightarrow> int \<times> int" where
  "word_loop st [] = st"
| "word_loop st (w # ws) = word_loop (word_step st w) ws"

text \<open>The result is an exception of \<^verbatim>\<open>int\<close>, or the amount, or \<^verbatim>\<open>None\<close>.\<close>

definition extract_amount :: "string \<Rightarrow> exn + int option" where
  "extract_amount text =
     (case findall_digits text of
        d # _ \<Rightarrow> (case py_int_str d of Inl e \<Rightarrow> Inl e | Inr n \<Rightarrow> Inr (Some n))
      | [] \<Rightarrow>
          (let (total, current) = word_loop (0, 0) (py_split (py_lower text));
               total' = total + current
           in if total' > 0 then Inr (Some total') else Inr None))"

subsection \<open>The specification's reading of the parser\<close>

text \<open>
  These definitions follow the words of the specification, not the source; the theorems
  below compare them with \<^verbatim>\<open>extract_amount\<close>.

  The first maximal run of decimal digits of a text, and the base-10 value of a digit
  string by positions.
\<close>

definition first_digit_run :: "string \<Rightarrow> string" where
  "first_digit_run text = takeWhile is_digit (dropWhile (\<lambda>c. \<not> is_digit c) text)"

fun decimal_value :: "string \<Rightarrow> int" where
  "decimal_value [] = 0"
| "decimal_value (c # cs) = digit_value c * 10 ^ length cs + decimal_value cs"

text \<open>
  The lexicon of units, teens and tens, and the fold over cleaned tokens: a unit, teen or
  ten word adds to \<open>current\<close>; "hundred" multiplies \<open>current\<close> (1 when empty) by 100;
  "thousand" multiplies \<open>current\<close> (1 when empty) by 1000, commits the product to
  \<open>total\<close> and resets \<open>current\<close>; any other token is ignored.
\<close>

definition small_numbers :: "(string \<times> int) list" where
  "small_numbers =
     zip [''zero'', ''one'', ''two'', ''three'', ''four'', ''five'', ''six'', ''seven'',
          ''eight'', ''nine''] [0, 1, 2, 3, 4, 5, 6, 7, 8, 9] @
     zip [''ten'', ''eleven'', ''twelve'', ''thirteen'', ''fourteen'', ''fifteen'',
          ''sixteen'', ''seventeen'', ''eighteen'', ''nineteen'']
         [10, 11, 12, 13, 14, 15, 16, 17, 18, 19] @
     zip [''twenty'', ''thirty'', ''forty'', ''fifty'', ''sixty'', ''seventy'', ''eighty'',
          ''ninety''] [20, 30, 40, 50, 60, 70, 80, 90]"

definition spec_step :: "int \<times> int \<Rightarrow> string \<Rightarrow> int \<times> int" where
  "spec_step st w =
     (let (total, current) = st
      in if w = ''hundred'' then (total, (if current = 0 then 1 else current) * 100)
         else if w = ''thousand'' then
           (total + (if current = 0 then 1 else current) * 1000, 0)
         else case map_of small_numbers w of
                Some v \<Rightarrow> (total, current + v)
              | None \<Rightarrow> (total, current))"

definition spec_parse_words :: "string \<Rightarrow> int option" where
  "spec_parse_words text =
     (let (total, current) = foldl spec_step (0, 0) (map strip_punct (py_split (py_lower text)))
      in if total + current > 0 then Some (total + current) else None)"

subsection \<open>Python values of the handlers\<close>

text \<open>
  The body of a request is the value \<^verbatim>\<open>request.json\<close> gives: \<^verbatim>\<open>None\<close>, a number, a string,
  a list or a dict. Python's numbers are \<^verbatim>\<open>bool\<close> (a subclass of \<^verbatim>\<open>int\<close>), \<^verbatim>\<open>int\<close> and
  \<^verbatim>\<open>float\<close>. A float is the rational number it denotes, or an infinity, or NaN (all of
  which \<^verbatim>\<open>json.loads\<close> accepts).
\<close>

datatype pyfloat = Finite rat | PosInf | NegInf | NaN

datatype pynum = PyBool bool | PyInt int | PyFloat pyfloat

datatype json =
    JNone
  | JNum pynum
  | JStr string
  | JList "json list"
  | JDict "(string \<times> json) list"

fun truthy :: "json \<Rightarrow> bool" where
  "truthy JNone = False"
| "truthy (JNum (PyBool b)) = b"
| "truthy (JNum (PyInt n)) = (n \<noteq> 0)"
| "truthy (JNum (PyFloat (Finite q))) = (q \<noteq> 0)"
| "truthy (JNum (PyFloat x)) = True"
| "truthy (JStr s) = (s \<noteq> [])"
| "truthy (JList vs) = (vs \<noteq> [])"
| "truthy (JDict kvs) = (kvs \<noteq> [])"

definition bool_int :: "bool \<Rightarrow> int" where
  "bool_int b = (if b then 1 else 0)"

fun num_le :: "pynum \<Rightarrow> int \<Rightarrow> bool" where
  \<comment> \<open>\<^verbatim>\<open>x <= k\<close> for a number \<open>x\<close> and an int \<open>k\<close>\<close>
  "num_le (PyBool b) k = (bool_int b \<le> k)"
| "num_le (PyInt n) k = (n \<le> k)"
| "num_le (PyFloat (Finite q)) k = (q \<le> of_int k)"
| "num_le (PyFloat PosInf) k = False"
| "num_le (PyFloat NegInf) k = True"
| "num_le (PyFloat NaN) k = False"

fun py_le :: "json \<Rightarrow> int \<Rightarrow> exn + bool" where
  \<comment> \<open>\<^verbatim>\<open>v <= k\<close>: a value that is not a number cannot be compared with an int\<close>
  "py_le (JNum x) k = Inr (num_le x k)"
| "py_le v k = Inl TypeError"

definition trunc :: "rat \<Rightarrow> int" where
  \<comment> \<open>rounding toward zero\<close>
  "trunc q = (if 0 \<le> q then \<lfloor>q\<rfloor> else \<lceil>q\<rceil>)"

fun py_int_num :: "pynum \<Rightarrow> exn + int" where
  \<comment> \<open>\<^verbatim>\<open>int(x)\<close> for a number\<close>
  "py_int_num (PyBool b) = Inr (bool_int b)"
| "py_int_num (PyInt n) = Inr n"
| "py_int_num (PyFloat (Finite q)) = Inr (trunc q)"
| "py_int_num (PyFloat NaN) = Inl ValueError"
| "py_int_num (PyFloat x) = Inl OverflowError"

fun py_int :: "json \<Rightarrow> exn + int" where
  \<comment> \<open>\<^verbatim>\<open>int(amount)\<close> in \<^verbatim>\<open>create_order\<close>: the comparison before it has raised on every
      value that is not a number, so only the first equation is ever used\<close>
  "py_int (JNum x) = py_int_num x"
| "py_int v = Inl TypeError"

text \<open>
  True division gives a float: the quotient rounded to the nearest IEEE 754 double, ties
  to the even significand. \<open>div_to_double n b\<close> is the double nearest to \<open>n / b\<close> for
  \<open>b > 0\<close>, or \<open>None\<close> when the rounded quotient is beyond the largest double. With
  \<open>e\<close> the binary exponent of the quotient, not below that of the subnormals, the
  spacing of the doubles around it is \<open>2 ^ (e - 52)\<close>, and the quotient is rounded to a
  multiple of that spacing.
\<close>

definition pow2 :: "int \<Rightarrow> rat" where
  "pow2 e = (if 0 \<le> e then 2 ^ nat e else 1 / 2 ^ nat (- e))"

fun bit_length :: "nat \<Rightarrow> nat" where
  \<comment> \<open>the number of binary digits\<close>
  "bit_length n = (if n = 0 then 0 else Suc (bit_length (n div 2)))"

declare bit_length.simps [simp del]

definition scale2 :: "int \<times> int \<Rightarrow> int \<Rightarrow> int \<times> int" where
  \<comment> \<open>the fraction \<open>a / b\<close> times \<open>2 ^ k\<close>\<close>
  "scale2 ab k =
     (let (a, b) = ab
      in if 0 \<le> k then (a * 2 ^ nat k, b) else (a, b * 2 ^ nat (- k)))"

definition ilog2_div :: "int \<Rightarrow> int \<Rightarrow> int" where
  \<comment> \<open>the \<open>e\<close> with \<open>2 ^ e \<le> a / b < 2 ^ (e + 1)\<close>, for positive \<open>a\<close> and \<open>b\<close>\<close>
  "ilog2_div a b =
     (let d = int (bit_length (nat a)) - int (bit_length (nat b));
          (a', b') = scale2 (a, b) (- d)
      in if b' \<le> a' then d else d - 1)"

definition round_half_even_div :: "int \<Rightarrow> int \<Rightarrow> int" where
  \<comment> \<open>\<open>a / b\<close> rounded to the nearest integer, a tie to the even one\<close>
  "round_half_even_div a b =
     (let f = a div b; r = a mod b
      in if 2 * r < b then f else if b < 2 * r then f + 1
         else if even f then f else f + 1)"

definition div_to_double :: "int \<Rightarrow> int \<Rightarrow> rat option" where
  "div_to_double n b =
     (if n = 0 then Some 0
      else
        (let a = \<bar>n\<bar>;
             e = max (ilog2_div a b) (- 1022);
             (a', b') = scale2 (a, b) (52 - e);
             r = of_int (round_half_even_div a' b') * pow2 (e - 52)
         in if pow2 1024 \<le> r then None else Some (of_int (sgn n) * r)))"

definition int_div_100 :: "int \<Rightarrow> exn + pyfloat" where
  \<comment> \<open>\<^verbatim>\<open>n / 100\<close> for an int: OverflowError when the result is too large for a float\<close>
  "int_div_100 n =
     (case div_to_double n 100 of None \<Rightarrow> Inl OverflowError | Some d \<Rightarrow> Inr (Finite d))"

definition float_div_100 :: "rat \<Rightarrow> pyfloat" where
  \<comment> \<open>\<^verbatim>\<open>x / 100\<close> for a finite float: IEEE division, which overflows to an infinity\<close>
  "float_div_100 q =
     (let (a, b) = quotient_of q
      in case div_to_double a (b * 100) of
           None \<Rightarrow> (if 0 < q then PosInf else NegInf)
         | Some d \<Rightarrow> Finite d)"

fun num_div_100 :: "pynum \<Rightarrow> exn + pyfloat" where
  \<comment> \<open>\<^verbatim>\<open>x / 100\<close>, true division\<close>
  "num_div_100 (PyBool b) = int_div_100 (bool_int b)"
| "num_div_100 (PyInt n) = int_div_100 n"
| "num_div_100 (PyFloat (Finite q)) = Inr (float_div_100 q)"
| "num_div_100 (PyFloat x) = Inr x"

fun py_div_100 :: "json \<Rightarrow> exn + json" where
  "py_div_100 (JNum x) =
     (case num_div_100 x of Inl e \<Rightarrow> Inl e | Inr f \<Rightarrow> Inr (JNum (PyFloat f)))"
| "py_div_100 v = Inl TypeError"

fun py_get :: "json \<Rightarrow> string \<Rightarrow> json \<Rightarrow> exn + json" where
  \<comment> \<open>\<^verbatim>\<open>data.get(key, default)\<close>: only a dict has the method\<close>
  "py_get (JDict kvs) key dflt =
     Inr (case map_of kvs key of Some v \<Rightarrow> v | None \<Rightarrow> dflt)"
| "py_get v key dflt = Inl AttributeError"

fun py_getitem :: "json \<Rightarrow> string \<Rightarrow> exn + json" where
  \<comment> \<open>\<^verbatim>\<open>obj[key]\<close> with a string key\<close>
  "py_getitem (JDict kvs) key =
     (case map_of kvs key of Some v \<Rightarrow> Inr v | None \<Rightarrow> Inl (KeyError key))"
| "py_getitem v key = Inl TypeError"

subsection \<open>The payment client and the responses\<close>

text \<open>
  The payment client is outside the repository. Its three calls are parameters: each
  answers with a value or raises. \<open>key_id\<close> is the module constant
  \<^verbatim>\<open>RAZORPAY_KEY_ID\<close>, read from the environment (a string, or \<^verbatim>\<open>None\<close>).
\<close>

record razorpay =
  key_id :: json
  order_create :: "json \<Rightarrow> exn + json"
  verify_payment_signature :: "json \<Rightarrow> exn + json"
  payment_fetch :: "json \<Rightarrow> exn + json"

text \<open>The calls a handler makes to the client, in order, are returned with its response.\<close>

datatype call = OrderCreate json | VerifyPaymentSignature json | PaymentFetch json

text \<open>
  A response is a status and a JSON object. \<open>ErrorOf e\<close> is the object
  \<^verbatim>\<open>{'error': str(e)}\<close>; the text of \<^verbatim>\<open>str(e)\<close> is not modelled.
\<close>

datatype body = Json "(string \<times> json) list" | ErrorOf exn

datatype response = Response (status: nat) (body: body)

subsection \<open>\<^verbatim>\<open>create_order\<close>\<close>

definition invalid_amount :: "json \<Rightarrow> exn + bool" where
  \<comment> \<open>\<^verbatim>\<open>not amount or amount <= 0\<close>; \<^verbatim>\<open>or\<close> evaluates the comparison only for a truthy amount\<close>
  "invalid_amount amount = (if \<not> truthy amount then Inr True else py_le amount 0)"

definition order_data :: "int \<Rightarrow> json \<Rightarrow> json" where
  "order_data minor upi_id =
     JDict [(''amount'', JNum (PyInt minor)),
            (''currency'', JStr ''INR''),
            (''payment_capture'', JNum (PyInt 1)),
            (''notes'', JDict [(''upi_id'', upi_id),
                               (''payment_method'', JStr ''voice_payment'')])]"

text \<open>
  The body of the \<^verbatim>\<open>try\<close>: an exception (\<open>Inl\<close>) or a response, with the calls made.
  The \<^verbatim>\<open>print\<close> reads \<^verbatim>\<open>order['id']\<close> before the response does.
\<close>

definition create_order_try :: "razorpay \<Rightarrow> json \<Rightarrow> (exn + response) \<times> call list" where
  "create_order_try rz data =
     (case py_get data ''amount'' JNone of
        Inl e \<Rightarrow> (Inl e, [])
      | Inr amount \<Rightarrow>
     (case py_get data ''upi_id'' (JStr ''Not provided'') of
        Inl e \<Rightarrow> (Inl e, [])
      | Inr upi_id \<Rightarrow>
     (case invalid_amount amount of
        Inl e \<Rightarrow> (Inl e, [])
      | Inr True \<Rightarrow> (Inr (Response 400 (Json [(''error'', JStr ''Invalid amount'')])), [])
      | Inr False \<Rightarrow>
     (case py_int amount of
        Inl e \<Rightarrow> (Inl e, [])
      | Inr n \<Rightarrow>
     (let od = order_data (n * 100) upi_id;
          calls = [OrderCreate od]
      in case order_create rz od of
        Inl e \<Rightarrow> (Inl e, calls)
      | Inr order \<Rightarrow>
     (case py_getitem order ''id'' of
        Inl e \<Rightarrow> (Inl e, calls)
      | Inr order_id \<Rightarrow>
     (case py_getitem order ''amount'' of
        Inl e \<Rightarrow> (Inl e, calls)
      | Inr order_amount \<Rightarrow>
     (case py_getitem order ''currency'' of
        Inl e \<Rightarrow> (Inl e, calls)
      | Inr order_currency \<Rightarrow>
          (Inr (Response 200 (Json
             [(''success'', JNum (PyBool True)),
              (''order_id'', order_id),
              (''amount'', order_amount),
              (''currency'', order_currency),
              (''razorpay_key_id'', key_id rz)])), calls)))))))))"

definition create_order :: "razorpay \<Rightarrow> json \<Rightarrow> response \<times> call list" where
  \<comment> \<open>\<^verbatim>\<open>except Exception as e\<close>: every exception becomes a 500 response\<close>
  "create_order rz data =
     (case create_order_try rz data of
        (Inl e, calls) \<Rightarrow> (Response 500 (ErrorOf e), calls)
      | (Inr resp, calls) \<Rightarrow> (resp, calls))"

subsection \<open>\<^verbatim>\<open>verify_payment\<close>\<close>

definition params_dict :: "json \<Rightarrow> json \<Rightarrow> json \<Rightarrow> json" where
  "params_dict razorpay_order_id razorpay_payment_id razorpay_signature =
     JDict [(''razorpay_order_id'', razorpay_order_id),
            (''razorpay_payment_id'', razorpay_payment_id),
            (''razorpay_signature'', razorpay_signature)]"

text \<open>
  The inner \<^verbatim>\<open>try\<close> block: the signature check, the fetch, and the response built from the
  fetched payment. The second \<^verbatim>\<open>print\<close> reads \<^verbatim>\<open>payment['amount']/100\<close> and
  \<^verbatim>\<open>payment['status']\<close> in the order the response does.
\<close>

definition verify_inner :: "razorpay \<Rightarrow> json \<Rightarrow> json \<Rightarrow> (exn + response) \<times> call list" where
  "verify_inner rz params razorpay_payment_id =
     (case verify_payment_signature rz params of
        Inl e \<Rightarrow> (Inl e, [VerifyPaymentSignature params])
      | Inr u \<Rightarrow>
     (let calls = [VerifyPaymentSignature params, PaymentFetch razorpay_payment_id]
      in case payment_fetch rz razorpay_payment_id of
        Inl e \<Rightarrow> (Inl e, calls)
      | Inr payment \<Rightarrow>
     (case py_getitem payment ''amount'' of
        Inl e \<Rightarrow> (Inl e, calls)
      | Inr payment_amount \<Rightarrow>
     (case py_div_100 payment_amount of
        Inl e \<Rightarrow> (Inl e, calls)
      | Inr rupees \<Rightarrow>
     (case py_getitem payment ''status'' of
        Inl e \<Rightarrow> (Inl e, calls)
      | Inr payment_status \<Rightarrow>
          (Inr (Response 200 (Json
             [(''success'', JNum (PyBool True)),
              (''message'', JStr ''Payment verified successfully''),
              (''payment_id'', razorpay_payment_id),
              (''amount'', rupees),
              (''status'', payment_status)])), calls))))))"

definition verify_payment_try :: "razorpay \<Rightarrow> json \<Rightarrow> (exn + response) \<times> call list" where
  "verify_payment_try rz data =
     (case py_get data ''razorpay_order_id'' JNone of
        Inl e \<Rightarrow> (Inl e, [])
      | Inr razorpay_order_id \<Rightarrow>
     (case py_get data ''razorpay_payment_id'' JNone of
        Inl e \<Rightarrow> (Inl e, [])
      | Inr razorpay_payment_id \<Rightarrow>
     (case py_get data ''razorpay_signature'' JNone of
        Inl e \<Rightarrow> (Inl e, [])
      | Inr razorpay_signature \<Rightarrow>
          if \<not> list_all truthy [razorpay_order_id, razorpay_payment_id, razorpay_signature]
          then (Inr (Response 400 (Json [(''error'', JStr ''Missing payment details'')])), [])
          else
            (case verify_inner rz
                    (params_dict razorpay_order_id razorpay_payment_id razorpay_signature)
                    razorpay_payment_id of
               (Inl SignatureVerificationError, calls) \<Rightarrow>
                 (Inr (Response 400 (Json
                    [(''success'', JNum (PyBool False)),
                     (''message'', JStr ''Payment verification failed - Invalid signature'')])),
                  calls)
             | r \<Rightarrow> r))))"

definition verify_payment :: "razorpay \<Rightarrow> json \<Rightarrow> response \<times> call list" where
  "verify_payment rz data =
     (case verify_payment_try rz data of
        (Inl e, calls) \<Rightarrow> (Response 500 (ErrorOf e), calls)
      | (Inr resp, calls) \<Rightarrow> (resp, calls))"

subsection \<open>The intent store of the specification\<close>

text \<open>
  The specification's data model has a PaymentIntent per order id, kept in a tracker.
  The source has no such store: the handlers read their request and the module constants,
  call the payment client, and assign to local variables only. The types below are the
  specification's; a request handled by the service leaves a tracker as it was, since no
  statement of the source writes to one.
\<close>

datatype intent_state = Created | AwaitingVerification | Verified | Failed

record PaymentIntent =
  orderId :: json
  amountMinorUnits :: int
  currency :: string
  state :: intent_state
  paymentId :: "json option"
  metadata :: "(string \<times> json) list"

type_synonym tracker = "json \<Rightarrow> PaymentIntent option"

definition create_order_service ::
  "razorpay \<Rightarrow> tracker \<Rightarrow> json \<Rightarrow> (response \<times> call list) \<times> tracker" where
  "create_order_service rz tr data = (create_order rz data, tr)"

definition verify_payment_service ::
  "razorpay \<Rightarrow> tracker \<Rightarrow> json \<Rightarrow> (response \<times> call list) \<times> tracker" where
  "verify_payment_service rz tr data = (verify_payment rz data, tr)"

subsection \<open>Sample inputs\<close>

text \<open>
  Concrete requests, client answers and trackers at which the theorems below are
  evaluated.
\<close>

definition sample_order :: json where
  "sample_order = JDict [(''id'', JStr ''order_1''), (''amount'', JNum (PyInt 500)),
                         (''currency'', JStr ''INR'')]"

definition sample_payment :: json where
  "sample_payment = JDict [(''amount'', JNum (PyInt 25000)), (''status'', JStr ''captured'')]"

definition rounded_payment :: json where
  "rounded_payment = JDict [(''amount'', JNum (PyInt 12345)), (''status'', JStr ''captured'')]"

definition huge_amount :: int where
  "huge_amount = 10 ^ 311"

definition huge_payment :: json where
  "huge_payment = JDict [(''amount'', JNum (PyInt huge_amount)), (''status'', JStr ''captured'')]"

definition sample_razorpay :: razorpay where
  "sample_razorpay =
     \<lparr>key_id = JStr ''rzp_test_key'',
      order_create = (\<lambda>od. Inr sample_order),
      verify_payment_signature = (\<lambda>params. Inr JNone),
      payment_fetch = (\<lambda>pid. Inr sample_payment)\<rparr>"

definition rejecting_razorpay :: razorpay where
  "rejecting_razorpay =
     sample_razorpay\<lparr>verify_payment_signature := (\<lambda>params. Inl SignatureVerificationError)\<rparr>"

definition rounding_razorpay :: razorpay where
  "rounding_razorpay = sample_razorpay\<lparr>payment_fetch := (\<lambda>pid. Inr rounded_payment)\<rparr>"

definition huge_razorpay :: razorpay where
  "huge_razorpay = sample_razorpay\<lparr>payment_fetch := (\<lambda>pid. Inr huge_payment)\<rparr>"

definition no_intents :: tracker where
  "no_intents = (\<lambda>k. None)"

definition sample_intent :: "intent_state \<Rightarrow> PaymentIntent" where
  "sample_intent s =
     \<lparr>orderId = JStr ''order_1'', amountMinorUnits = 500, currency = ''INR'', state = s,
      paymentId = None, metadata = []\<rparr>"

definition one_intent :: "intent_state \<Rightarrow> tracker" where
  "one_intent s = no_intents (JStr ''order_1'' := Some (sample_intent s))"

definition sample_verify_request :: json where
  "sample_verify_request =
     JDict [(''razorpay_order_id'', JStr ''order_1''),
            (''razorpay_payment_id'', JStr ''pay_1''),
            (''razorpay_signature'', JStr ''sig_1'')]"

section \<open>The parser\<close>

subsection \<open>Digit runs\<close>

lemma runs_Nil_iff: "runs P xs = [] \<longleftrightarrow> (\<forall>c\<in>set xs. \<not> P c)"
  by (induction P xs rule: runs.induct) auto

lemma runs_first:
  "\<exists>c\<in>set xs. P c \<Longrightarrow>
   \<exists>rest. runs P xs = takeWhile P (dropWhile (\<lambda>c. \<not> P c) xs) # rest"
  by (induction P xs rule: runs.induct) auto

lemma runs_all: "xs \<noteq> [] \<Longrightarrow> \<forall>c\<in>set xs. P c \<Longrightarrow> runs P xs = [xs]"
  by (cases xs) (simp_all add: takeWhile_eq_all_conv [THEN iffD2]
      dropWhile_eq_Nil_conv [THEN iffD2])

lemma foldl_decimal:
  "foldl (\<lambda>n c. 10 * n + digit_value c) a s = a * 10 ^ length s + decimal_value s"
  by (induction s arbitrary: a) (auto simp: algebra_simps)

lemma py_int_str_decimal:
  "py_int_str s = (if length s \<le> 4300 then Inr (decimal_value s) else Inl ValueError)"
  by (simp add: py_int_str_def max_str_digits_def foldl_decimal)

text \<open>
  Claim C4, as the code has it. On a text with at least one decimal digit the parser
  takes the first maximal run of digits: a run of at most 4300 digits is parsed to its
  base-10 value, and on a longer run \<^verbatim>\<open>int\<close> raises ValueError. The words of the text play
  no part in the result.
\<close>

theorem extract_amount_first_digit_run:
  assumes "\<exists>c\<in>set text. is_digit c"
  shows "extract_amount text =
           (if length (first_digit_run text) \<le> 4300
            then Inr (Some (decimal_value (first_digit_run text)))
            else Inl ValueError)"
proof -
  obtain rest where "findall_digits text = first_digit_run text # rest"
    using runs_first [OF assms] by (auto simp: findall_digits_def first_digit_run_def)
  then show ?thesis by (simp add: extract_amount_def py_int_str_decimal)
qed

text \<open>The theorem at \<^verbatim>\<open>"pay 250 rupees"\<close>, and at a text whose words alone would give 2000.\<close>

theorem extract_amount_first_digit_run_witness:
  "CHR ''2'' \<in> set ''pay 250 rupees'' \<and> is_digit CHR ''2''
   \<and> extract_amount ''pay 250 rupees'' = Inr (Some 250)
   \<and> extract_amount ''two thousand 3'' = Inr (Some 3)"
  using extract_amount_first_digit_run [of "''pay 250 rupees''"]
        extract_amount_first_digit_run [of "''two thousand 3''"]
  by (simp add: first_digit_run_def is_digit_def code_def digit_value_def)

text \<open>
  Claim C4 as stated fails: on a text of 4301 digits the parser returns no integer, it
  raises ValueError.
\<close>

theorem extract_amount_long_digit_run:
  "extract_amount (replicate 4301 CHR ''1'') = Inl ValueError"
proof -
  have "findall_digits (replicate 4301 CHR ''1'') = [replicate 4301 CHR ''1'']"
    unfolding findall_digits_def
    by (rule runs_all) (simp_all add: is_digit_def code_def)
  then show ?thesis
    by (simp add: extract_amount_def py_int_str_def max_str_digits_def)
qed

subsection \<open>Number words\<close>

lemma lexicon_split:
  "map_of words_to_numbers w =
     (if w = ''hundred'' then Some 100 else if w = ''thousand'' then Some 1000
      else map_of small_numbers w)"
  by (simp add: words_to_numbers_def small_numbers_def)

lemma small_numbers_range: "map_of small_numbers w = Some v \<Longrightarrow> 0 \<le> v \<and> v \<le> 90"
  by (auto simp: small_numbers_def split: if_splits)

lemma word_step_spec: "word_step st w = spec_step st (strip_punct w)"
  using small_numbers_range [of "strip_punct w"]
  by (cases st) (auto simp: word_step_def spec_step_def lexicon_split split: option.splits)

lemma word_loop_spec: "word_loop st ws = foldl spec_step st (map strip_punct ws)"
  by (induction ws arbitrary: st) (simp_all add: word_step_spec)

lemma extract_amount_digit_free:
  assumes "\<forall>c\<in>set text. \<not> is_digit c"
  shows "extract_amount text =
     (let (total, current) = word_loop (0, 0) (py_split (py_lower text));
          total' = total + current
      in if total' > 0 then Inr (Some total') else Inr None)"
proof -
  have "findall_digits text = []"
    using assms by (simp add: findall_digits_def runs_Nil_iff)
  then show ?thesis by (simp add: extract_amount_def)
qed

lemma two_thousand_five_hundred:
  "extract_amount ''two thousand five hundred'' = Inr (Some 2500)"
  by code_simp

lemma twenty_one_hundred: "extract_amount ''twenty one hundred'' = Inr (Some 2100)"
  by code_simp

lemma mixed_case_punctuation:
  "extract_amount ('' Two Hundred,'' @ [CHR 0x09] @ ''FIFTY.'') = Inr (Some 250)"
  by code_simp

lemma zero_word: "extract_amount ''zero'' = Inr None"
  by code_simp

lemma hello_world: "extract_amount ''hello world'' = Inr None"
  by code_simp

text \<open>
  Claim C5. On a text without digits the parser is the specification's fold: the text is
  lowercased and split at whitespace, every token is stripped of punctuation, and the
  tokens are folded from the left by \<open>spec_step\<close> (a unit, teen or ten word adds to
  \<open>current\<close>; "hundred" multiplies \<open>current\<close>, or 1 when it is empty, by 100; "thousand"
  multiplies \<open>current\<close>, or 1, by 1000, adds the product to \<open>total\<close> and resets
  \<open>current\<close>; other tokens are ignored). So "two thousand five hundred" is 2500 and
  "twenty one hundred" is 2100; and with capitals, punctuation, a leading space and a
  tab, " Two Hundred," tab "FIFTY." is 250.
\<close>

theorem extract_amount_word_fold:
  assumes "\<forall>c\<in>set text. \<not> is_digit c"
  shows "extract_amount text = Inr (spec_parse_words text)
       \<and> extract_amount ''two thousand five hundred'' = Inr (Some 2500)
       \<and> extract_amount ''twenty one hundred'' = Inr (Some 2100)
       \<and> extract_amount ('' Two Hundred,'' @ [CHR 0x09] @ ''FIFTY.'') = Inr (Some 250)
       \<and> py_lower ''Two FIFTY'' = ''two fifty''
       \<and> strip_punct ''fifty.'' = ''fifty''
       \<and> py_split ('' two  hundred'' @ [CHR 0x09] @ ''fifty '') =
            [''two'', ''hundred'', ''fifty'']"
proof -
  have "extract_amount text = Inr (spec_parse_words text)"
    using extract_amount_digit_free [OF assms]
    by (simp add: spec_parse_words_def word_loop_spec Let_def split: prod.splits)
  moreover have "py_lower ''Two FIFTY'' = ''two fifty''"
    by code_simp
  moreover have "strip_punct ''fifty.'' = ''fifty''"
    by code_simp
  moreover have "py_split ('' two  hundred'' @ [CHR 0x09] @ ''fifty '') =
      [''two'', ''hundred'', ''fifty'']"
    by code_simp
  ultimately show ?thesis
    using two_thousand_five_hundred twenty_one_hundred mixed_case_punctuation by simp
qed

theorem extract_amount_word_fold_witness:
  "list_all (\<lambda>c. \<not> is_digit c) ''two thousand five hundred''
   \<and> spec_parse_words ''two thousand five hundred'' = Some 2500"
proof -
  have digit_free: "\<forall>c\<in>set ''two thousand five hundred''. \<not> is_digit c"
    by (simp add: is_digit_def code_def)
  have "extract_amount ''two thousand five hundred'' =
      Inr (spec_parse_words ''two thousand five hundred'')"
    using extract_amount_word_fold [OF digit_free] by (rule conjunct1)
  then have "spec_parse_words ''two thousand five hundred'' = Some 2500"
    using two_thousand_five_hundred by simp
  then show ?thesis using digit_free by (simp add: list_all_iff)
qed

subsection \<open>Only positive amounts from words\<close>

lemma word_step_nonneg:
  "0 \<le> fst st \<Longrightarrow> 0 \<le> snd st \<Longrightarrow>
   0 \<le> fst (word_step st w) \<and> 0 \<le> snd (word_step st w)"
  using small_numbers_range [of "strip_punct w"]
  by (cases st) (auto simp: word_step_spec spec_step_def split: option.splits)

lemma word_loop_nonneg:
  "0 \<le> fst st \<Longrightarrow> 0 \<le> snd st \<Longrightarrow>
   0 \<le> fst (word_loop st ws) \<and> 0 \<le> snd (word_loop st ws)"
  by (induction ws arbitrary: st) (simp_all add: word_step_nonneg)

text \<open>
  Claim C6. On a text without digits the parser returns \<open>total + current\<close> of the word
  fold when that sum is strictly positive and \<open>None\<close> otherwise; "zero" and
  "hello world" give \<open>None\<close>.
\<close>

theorem extract_amount_positive_or_none:
  assumes "\<forall>c\<in>set text. \<not> is_digit c"
  shows "(case word_loop (0, 0) (py_split (py_lower text)) of
            (tot, cur) \<Rightarrow>
              extract_amount text =
                Inr (if tot + cur > 0 then Some (tot + cur) else None))
       \<and> extract_amount text \<noteq> Inr (Some 0)
       \<and> extract_amount ''zero'' = Inr None
       \<and> extract_amount ''hello world'' = Inr None"
  using extract_amount_digit_free [OF assms]
  by (auto simp: Let_def zero_word hello_world split: prod.splits if_splits)

theorem extract_amount_positive_or_none_witness:
  "list_all (\<lambda>c. \<not> is_digit c) ''zero rupees''
   \<and> word_loop (0, 0) (py_split (py_lower ''zero rupees'')) = (0, 0)
   \<and> extract_amount ''zero rupees'' = Inr None"
proof -
  have digit_free: "\<forall>c\<in>set ''zero rupees''. \<not> is_digit c"
    by (simp add: is_digit_def code_def)
  have fold: "word_loop (0, 0) (py_split (py_lower ''zero rupees'')) = (0, 0)"
    by code_simp
  have "extract_amount ''zero rupees'' = Inr None"
    using extract_amount_positive_or_none [OF digit_free, THEN conjunct1] fold by simp
  then show ?thesis using digit_free fold by (simp add: list_all_iff)
qed

text \<open>
  Claim C9. Some text with a digit is parsed to 0, not to \<open>None\<close>: the first digit run of
  \<^verbatim>\<open>"0 rupees"\<close> is \<^verbatim>\<open>"0"\<close> and the digit path returns it at once, while the word path
  suppresses the zero of \<^verbatim>\<open>"zero"\<close>.
\<close>

theorem extract_amount_digit_zero:
  "findall_digits ''0 rupees'' = [''0'']
   \<and> extract_amount ''0 rupees'' = Inr (Some 0)
   \<and> extract_amount ''zero'' = Inr None"
proof -
  have run: "findall_digits ''0 rupees'' = [''0'']"
    by (simp add: findall_digits_def is_digit_def code_def)
  then have "extract_amount ''0 rupees'' = Inr (Some 0)"
    by (simp add: extract_amount_def py_int_str_def max_str_digits_def digit_value_def
        code_def)
  then show ?thesis using run zero_word by simp
qed

section \<open>True division by 100\<close>

text \<open>
  Two characterisations that evaluate the rounding on large numerals without running the
  recursion: the bit length by the powers of two around the number, and the rounded
  quotient by its distance from the exact one.
\<close>

lemma bit_length_eq:
  "2 ^ k \<le> n \<Longrightarrow> n < 2 ^ Suc k \<Longrightarrow> bit_length n = Suc k"
proof (induction k arbitrary: n)
  case 0
  then have "n = 1" by simp
  then show ?case by (simp add: bit_length.simps)
next
  case (Suc k)
  have "2 ^ k \<le> n div 2" "n div 2 < 2 ^ Suc k"
    using Suc.prems by auto
  then have "bit_length (n div 2) = Suc k"
    by (rule Suc.IH)
  moreover have "n \<noteq> 0"
    using Suc.prems(1) by (cases "n = 0") simp_all
  ultimately show ?case
    by (subst bit_length.simps) simp
qed

lemma round_half_even_div_eq:
  assumes "0 < b" and "2 * \<bar>a - m * b\<bar> < b"
  shows "round_half_even_div a b = m"
proof -
  define f where "f = a div b"
  define r where "r = a mod b"
  have a: "a = f * b + r" and r: "0 \<le> r" "r < b"
    using assms(1) by (simp_all add: f_def r_def)
  define x where "x = (f - m) * b"
  have "2 * \<bar>x + r\<bar> < b"
    using assms(2) a by (simp add: x_def algebra_simps)
  then have x: "2 * (x + r) < b" "- b < 2 * (x + r)"
    by (simp_all add: abs_if split: if_splits)
  have "f - m = 0 \<or> f - m = - 1"
  proof (rule ccontr)
    assume "\<not> (f - m = 0 \<or> f - m = - 1)"
    then consider "1 \<le> f - m" | "f - m \<le> - 2" by linarith
    then show False
    proof cases
      case 1
      then have "1 * b \<le> (f - m) * b"
        using assms(1) by (intro mult_right_mono) simp_all
      then have "b \<le> x" by (simp add: x_def)
      then show False
        using x r assms(1) by arith
    next
      case 2
      then have "(f - m) * b \<le> (- 2) * b"
        using assms(1) by (intro mult_right_mono) simp_all
      then have "x \<le> - 2 * b" by (simp add: x_def)
      then show False
        using x r assms(1) by arith
    qed
  qed
  then show ?thesis
  proof
    assume "f - m = 0"
    then have "m = f" "2 * r < b"
      using x r by (simp_all add: x_def)
    then show ?thesis
      by (simp add: round_half_even_div_def Let_def f_def r_def)
  next
    assume "f - m = - 1"
    then have "m = f + 1" "b < 2 * r"
      using x r by (simp_all add: x_def)
    then show ?thesis
      by (simp add: round_half_even_div_def Let_def f_def r_def)
  qed
qed

lemma div_to_double_steps:
  assumes "n \<noteq> 0"
      and "int (bit_length (nat \<bar>n\<bar>)) - int (bit_length (nat b)) = d"
      and "scale2 (\<bar>n\<bar>, b) (- d) = (a0, b0)"
      and "(if b0 \<le> a0 then d else d - 1) = e0"
      and "max e0 (- 1022) = e"
      and "scale2 (\<bar>n\<bar>, b) (52 - e) = (a', b')"
      and "round_half_even_div a' b' = m"
  shows "div_to_double n b =
           (if pow2 1024 \<le> of_int m * pow2 (e - 52) then None
            else Some (of_int (sgn n) * (of_int m * pow2 (e - 52))))"
proof -
  have "ilog2_div \<bar>n\<bar> b = e0"
    using assms(2-4) by (simp add: ilog2_div_def Let_def)
  then show ?thesis
    using assms(1,5-7) by (simp add: div_to_double_def Let_def)
qed

text \<open>
  The division at four amounts: 25000 / 100 is 250 exactly; 12345 / 100 and 1 / 100 are
  the doubles nearest to 123.45 and 0.01; and 10 ^ 311 / 100 is beyond the largest
  double.
\<close>

lemma div_to_double_25000: "div_to_double 25000 100 = Some 250"
proof -
  have 1: "(25000::int) \<noteq> 0" by simp
  have 2: "int (bit_length (nat \<bar>25000\<bar>)) - int (bit_length (nat 100)) = 8"
    by (simp add: bit_length.simps)
  have 3: "scale2 (\<bar>25000\<bar>, 100) (- 8) = (25000, 25600)"
    by (simp add: scale2_def)
  have 4: "(if (25600::int) \<le> 25000 then 8 else 8 - 1) = (7::int)" by simp
  have 5: "max (7::int) (- 1022) = 7" by simp
  have 6: "scale2 (\<bar>25000\<bar>, 100) (52 - 7) = (25000 * 2 ^ 45, 100)"
    by (simp add: scale2_def)
  have 7: "round_half_even_div (25000 * 2 ^ 45) 100 = 250 * 2 ^ 45"
    by (rule round_half_even_div_eq) simp_all
  show ?thesis
    unfolding div_to_double_steps [OF 1 2 3 4 5 6 7] by (simp add: pow2_def)
qed

lemma div_to_double_12345:
  "div_to_double 12345 100 = Some (8687021468732621 / 70368744177664)"
proof -
  have 1: "(12345::int) \<noteq> 0" by simp
  have 2: "int (bit_length (nat \<bar>12345\<bar>)) - int (bit_length (nat 100)) = 7"
    by (simp add: bit_length.simps)
  have 3: "scale2 (\<bar>12345\<bar>, 100) (- 7) = (12345, 12800)"
    by (simp add: scale2_def)
  have 4: "(if (12800::int) \<le> 12345 then 7 else 7 - 1) = (6::int)" by simp
  have 5: "max (6::int) (- 1022) = 6" by simp
  have 6: "scale2 (\<bar>12345\<bar>, 100) (52 - 6) = (12345 * 2 ^ 46, 100)"
    by (simp add: scale2_def)
  have 7: "round_half_even_div (12345 * 2 ^ 46) 100 = 8687021468732621"
    by (rule round_half_even_div_eq) simp_all
  show ?thesis
    unfolding div_to_double_steps [OF 1 2 3 4 5 6 7] by (simp add: pow2_def)
qed

lemma div_to_double_1:
  "div_to_double 1 100 = Some (5764607523034235 / 576460752303423488)"
proof -
  have 1: "(1::int) \<noteq> 0" by simp
  have 2: "int (bit_length (nat \<bar>1\<bar>)) - int (bit_length (nat 100)) = - 6"
    by (simp add: bit_length.simps)
  have 3: "scale2 (\<bar>1\<bar>, 100) (- (- 6)) = (64, 100)"
    by (simp add: scale2_def)
  have 4: "(if (100::int) \<le> 64 then - 6 else - 6 - 1) = (- 7::int)" by simp
  have 5: "max (- 7::int) (- 1022) = - 7" by simp
  have 6: "scale2 (\<bar>1\<bar>, 100) (52 - (- 7)) = (2 ^ 59, 100)"
    by (simp add: scale2_def)
  have 7: "round_half_even_div (2 ^ 59) 100 = 5764607523034235"
    by (rule round_half_even_div_eq) simp_all
  show ?thesis
    unfolding div_to_double_steps [OF 1 2 3 4 5 6 7] by (simp add: pow2_def)
qed

lemma div_to_double_huge: "div_to_double huge_amount 100 = None"
proof -
  have 1: "huge_amount \<noteq> 0" by (simp add: huge_amount_def)
  have "bit_length (10 ^ 311) = Suc 1033"
    by (rule bit_length_eq) simp_all
  moreover have "bit_length 100 = 7"
    by (simp add: bit_length.simps)
  ultimately have 2:
    "int (bit_length (nat \<bar>huge_amount\<bar>)) - int (bit_length (nat 100)) = 1027"
    by (simp add: huge_amount_def)
  have 3: "scale2 (\<bar>huge_amount\<bar>, 100) (- 1027) = (huge_amount, 100 * 2 ^ 1027)"
    by (simp add: scale2_def huge_amount_def)
  have 4: "(if 100 * 2 ^ 1027 \<le> huge_amount then 1027 else 1027 - 1) = (1026::int)"
    by (simp add: huge_amount_def)
  have 5: "max (1026::int) (- 1022) = 1026" by simp
  have 6: "scale2 (\<bar>huge_amount\<bar>, 100) (52 - 1026) = (huge_amount, 100 * 2 ^ 974)"
    by (simp add: scale2_def huge_amount_def)
  have 7: "round_half_even_div huge_amount (100 * 2 ^ 974) = 6263026125028040"
    by (rule round_half_even_div_eq) (simp_all add: huge_amount_def)
  show ?thesis
    unfolding div_to_double_steps [OF 1 2 3 4 5 6 7] by (simp add: pow2_def)
qed

section \<open>Order creation\<close>

lemma invalid_amount_number:
  "invalid_amount a = Inr False \<Longrightarrow> \<exists>x. a = JNum x"
  by (cases a) (auto simp: invalid_amount_def split: if_splits)

text \<open>Past the validation, the handler is the client call and the reading of its answer.\<close>

lemma create_order_try_accepted:
  assumes "map_of kvs ''amount'' = Some amount"
      and "upi = (case map_of kvs ''upi_id'' of Some v \<Rightarrow> v | None \<Rightarrow> JStr ''Not provided'')"
      and "invalid_amount amount = Inr False"
      and "py_int amount = Inr k"
  shows "create_order_try rz (JDict kvs) =
     (let od = order_data (k * 100) upi; calls = [OrderCreate od]
      in case order_create rz od of
        Inl e \<Rightarrow> (Inl e, calls)
      | Inr order \<Rightarrow>
     (case py_getitem order ''id'' of
        Inl e \<Rightarrow> (Inl e, calls)
      | Inr order_id \<Rightarrow>
     (case py_getitem order ''amount'' of
        Inl e \<Rightarrow> (Inl e, calls)
      | Inr order_amount \<Rightarrow>
     (case py_getitem order ''currency'' of
        Inl e \<Rightarrow> (Inl e, calls)
      | Inr order_currency \<Rightarrow>
          (Inr (Response 200 (Json
             [(''success'', JNum (PyBool True)),
              (''order_id'', order_id),
              (''amount'', order_amount),
              (''currency'', order_currency),
              (''razorpay_key_id'', key_id rz)])), calls)))))"
  using assms by (simp add: create_order_try_def)


text \<open>
  The requests the validation turns away: no amount, \<^verbatim>\<open>None\<close>, or a number that is at most
  0. The answer is 400 and the client is not called.
\<close>

lemma create_order_invalid_amount:
  assumes "map_of kvs ''amount'' = None \<or> map_of kvs ''amount'' = Some JNone \<or>
           (\<exists>x. map_of kvs ''amount'' = Some (JNum x) \<and> num_le x 0)"
  shows "create_order rz (JDict kvs) =
           (Response 400 (Json [(''error'', JStr ''Invalid amount'')]), [])"
  using assms by (auto simp: create_order_def create_order_try_def invalid_amount_def)

text \<open>
  Claim C2, as the code has it. For every integer amount above 0, \<^verbatim>\<open>create_order\<close> asks the
  client once for an order of \<open>amount * 100\<close> minor units in INR, with automatic capture
  and the UPI id of the request (or \<^verbatim>\<open>Not provided\<close>) in its notes. When the client
  answers with an order that has an id, an amount and a currency, the response is 200
  with those three and the public key id. No PaymentIntent is stored: a tracker is left
  as it was.
\<close>

theorem create_order_success:
  assumes "0 < n"
      and "map_of kvs ''amount'' = Some (JNum (PyInt n))"
      and "upi = (case map_of kvs ''upi_id'' of Some v \<Rightarrow> v | None \<Rightarrow> JStr ''Not provided'')"
      and "order_create rz
             (JDict [(''amount'', JNum (PyInt (n * 100))),
                     (''currency'', JStr ''INR''),
                     (''payment_capture'', JNum (PyInt 1)),
                     (''notes'', JDict [(''upi_id'', upi),
                                        (''payment_method'', JStr ''voice_payment'')])])
           = Inr (JDict order)"
      and "map_of order ''id'' = Some oid"
      and "map_of order ''amount'' = Some oamount"
      and "map_of order ''currency'' = Some ocurrency"
  shows "create_order_service rz tr (JDict kvs) =
     ((Response 200 (Json
         [(''success'', JNum (PyBool True)),
          (''order_id'', oid),
          (''amount'', oamount),
          (''currency'', ocurrency),
          (''razorpay_key_id'', key_id rz)]),
       [OrderCreate
          (JDict [(''amount'', JNum (PyInt (n * 100))),
                  (''currency'', JStr ''INR''),
                  (''payment_capture'', JNum (PyInt 1)),
                  (''notes'', JDict [(''upi_id'', upi),
                                     (''payment_method'', JStr ''voice_payment'')])])]),
      tr)"
proof -
  have "invalid_amount (JNum (PyInt n)) = Inr False"
    using assms(1) by (simp add: invalid_amount_def)
  moreover have "py_int (JNum (PyInt n)) = Inr n" by simp
  ultimately show ?thesis
    using create_order_try_accepted [OF assms(2,3), of n rz] assms(4-7)
    by (simp add: create_order_service_def create_order_def order_data_def)
qed

text \<open>The theorem at a request for 5 rupees that names a UPI id.\<close>

theorem create_order_success_witness:
  "(0::int) < 5 \<and>
   create_order_service sample_razorpay no_intents
       (JDict [(''amount'', JNum (PyInt 5)), (''upi_id'', JStr ''asha@upi'')]) =
     ((Response 200 (Json
         [(''success'', JNum (PyBool True)),
          (''order_id'', JStr ''order_1''),
          (''amount'', JNum (PyInt 500)),
          (''currency'', JStr ''INR''),
          (''razorpay_key_id'', JStr ''rzp_test_key'')]),
       [OrderCreate
          (JDict [(''amount'', JNum (PyInt 500)),
                  (''currency'', JStr ''INR''),
                  (''payment_capture'', JNum (PyInt 1)),
                  (''notes'', JDict [(''upi_id'', JStr ''asha@upi''),
                                     (''payment_method'', JStr ''voice_payment'')])])]),
      no_intents)"
  using create_order_success
          [of 5 "[(''amount'', JNum (PyInt 5)), (''upi_id'', JStr ''asha@upi'')]"
              "JStr ''asha@upi''" sample_razorpay
              "[(''id'', JStr ''order_1''), (''amount'', JNum (PyInt 500)),
                (''currency'', JStr ''INR'')]"
              "JStr ''order_1''" "JNum (PyInt 500)" "JStr ''INR''" no_intents]
  by (simp add: sample_razorpay_def sample_order_def)

text \<open>
  Claim C2 as stated fails: after a successful \<^verbatim>\<open>create_order\<close> for 5 rupees on an empty
  tracker, the client has been asked for 500 minor units and has answered with order
  \<^verbatim>\<open>order_1\<close>, and the tracker holds no intent for that order.
\<close>

theorem create_order_stores_no_intent:
  "status (fst (fst (create_order_service sample_razorpay no_intents
                      (JDict [(''amount'', JNum (PyInt 5))])))) = 200
   \<and> snd (fst (create_order_service sample_razorpay no_intents
                 (JDict [(''amount'', JNum (PyInt 5))]))) =
       [OrderCreate
          (JDict [(''amount'', JNum (PyInt 500)),
                  (''currency'', JStr ''INR''),
                  (''payment_capture'', JNum (PyInt 1)),
                  (''notes'', JDict [(''upi_id'', JStr ''Not provided''),
                                     (''payment_method'', JStr ''voice_payment'')])])]
   \<and> snd (create_order_service sample_razorpay no_intents
            (JDict [(''amount'', JNum (PyInt 5))])) (JStr ''order_1'') = None"
  by (simp add: create_order_service_def create_order_def create_order_try_def
      invalid_amount_def order_data_def sample_razorpay_def sample_order_def
      no_intents_def Let_def)

text \<open>
  Claim C7 at the request \<^verbatim>\<open>{"amount": "abc"}\<close>: the string is truthy, the comparison
  \<^verbatim>\<open>amount <= 0\<close> raises TypeError, and the handler answers 500, not 400. The client is not
  called.
\<close>

theorem create_order_string_amount:
  "create_order rz (JDict [(''amount'', JStr ''abc'')]) = (Response 500 (ErrorOf TypeError), [])"
  by (simp add: create_order_def create_order_try_def invalid_amount_def)

subsection \<open>Truncation of the amount\<close>







section \<open>Payment verification\<close>

text \<open>With the three identifiers present and truthy, the handler is its inner block.\<close>

lemma verify_try_present:
  assumes "map_of kvs ''razorpay_order_id'' = Some oid"
      and "map_of kvs ''razorpay_payment_id'' = Some pid"
      and "map_of kvs ''razorpay_signature'' = Some sg"
      and "truthy oid" "truthy pid" "truthy sg"
  shows "verify_payment_try rz (JDict kvs) =
     (case verify_inner rz (params_dict oid pid sg) pid of
        (Inl SignatureVerificationError, calls) \<Rightarrow>
          (Inr (Response 400 (Json
             [(''success'', JNum (PyBool False)),
              (''message'', JStr ''Payment verification failed - Invalid signature'')])),
           calls)
      | r \<Rightarrow> r)"
  using assms by (simp add: verify_payment_try_def)

lemma verify_inner_first_call:
  "\<exists>calls. snd (verify_inner rz params pid) = VerifyPaymentSignature params # calls"
  by (simp add: verify_inner_def Let_def split: sum.splits)

lemma int_div_100_25000: "int_div_100 25000 = Inr (Finite 250)"
  by (simp add: int_div_100_def div_to_double_25000)

lemma int_div_100_12345:
  "int_div_100 12345 = Inr (Finite (8687021468732621 / 70368744177664))"
  by (simp add: int_div_100_def div_to_double_12345)

lemma int_div_100_huge: "int_div_100 huge_amount = Inl OverflowError"
  by (simp add: int_div_100_def div_to_double_huge)

lemma num_div_100_no_signature_error: "num_div_100 x \<noteq> Inl SignatureVerificationError"
  by (cases x rule: num_div_100.cases)
     (simp_all add: int_div_100_def split: option.splits)

text \<open>
  Claim C1, as the code has it. When the signature check succeeds and the fetch returns a
  payment record with a numeric amount and a status, the response is built from that
  record alone: nothing of the request's order and nothing a tracker may hold for the
  order reaches the amount. The amount is the record's amount divided by 100 as Python
  divides, that is rounded to a double; when the quotient of an integer amount is beyond
  the range of a float, the division raises OverflowError and the response is 500.
\<close>

theorem verify_amount_from_provider:
  assumes "map_of kvs ''razorpay_order_id'' = Some oid"
      and "map_of kvs ''razorpay_payment_id'' = Some pid"
      and "map_of kvs ''razorpay_signature'' = Some sg"
      and "truthy oid" "truthy pid" "truthy sg"
      and "verify_payment_signature rz (params_dict oid pid sg) = Inr u"
      and "payment_fetch rz pid = Inr (JDict payment)"
      and "map_of payment ''amount'' = Some (JNum x)"
      and "map_of payment ''status'' = Some st"
  shows "verify_payment_service rz tr (JDict kvs) =
     ((case num_div_100 x of
         Inl e \<Rightarrow> Response 500 (ErrorOf e)
       | Inr rupees \<Rightarrow>
           Response 200 (Json
             [(''success'', JNum (PyBool True)),
              (''message'', JStr ''Payment verified successfully''),
              (''payment_id'', pid),
              (''amount'', JNum (PyFloat rupees)),
              (''status'', st)]),
       [VerifyPaymentSignature (params_dict oid pid sg), PaymentFetch pid]), tr)"
proof (cases "num_div_100 x")
  case (Inl e)
  then have "e \<noteq> SignatureVerificationError"
    using num_div_100_no_signature_error [of x] by auto
  moreover have "verify_inner rz (params_dict oid pid sg) pid =
      (Inl e, [VerifyPaymentSignature (params_dict oid pid sg), PaymentFetch pid])"
    using assms(7-9) Inl by (simp add: verify_inner_def)
  ultimately show ?thesis
    using verify_try_present [OF assms(1-6), of rz] Inl
    by (cases e) (simp_all add: verify_payment_service_def verify_payment_def)
next
  case (Inr rupees)
  then have "verify_inner rz (params_dict oid pid sg) pid =
     (Inr (Response 200 (Json
         [(''success'', JNum (PyBool True)),
          (''message'', JStr ''Payment verified successfully''),
          (''payment_id'', pid),
          (''amount'', JNum (PyFloat rupees)),
          (''status'', st)])),
       [VerifyPaymentSignature (params_dict oid pid sg), PaymentFetch pid])"
    using assms(7-10) by (simp add: verify_inner_def)
  then show ?thesis
    using verify_try_present [OF assms(1-6), of rz] Inr
    by (simp add: verify_payment_service_def verify_payment_def)
qed

text \<open>
  The theorem at an order created for 500 minor units whose fetched payment has 12345:
  the verified amount is the double nearest to 123.45.
\<close>

theorem verify_amount_from_provider_witness:
  "amountMinorUnits (sample_intent Created) = 500
   \<and> verify_payment_service rounding_razorpay (one_intent Created) sample_verify_request =
     ((Response 200 (Json
         [(''success'', JNum (PyBool True)),
          (''message'', JStr ''Payment verified successfully''),
          (''payment_id'', JStr ''pay_1''),
          (''amount'', JNum (PyFloat (Finite (8687021468732621 / 70368744177664)))),
          (''status'', JStr ''captured'')]),
       [VerifyPaymentSignature sample_verify_request, PaymentFetch (JStr ''pay_1'')]),
      one_intent Created)"
  using verify_amount_from_provider
          [of "[(''razorpay_order_id'', JStr ''order_1''),
                (''razorpay_payment_id'', JStr ''pay_1''),
                (''razorpay_signature'', JStr ''sig_1'')]"
              "JStr ''order_1''" "JStr ''pay_1''" "JStr ''sig_1''" rounding_razorpay JNone
              "[(''amount'', JNum (PyInt 12345)), (''status'', JStr ''captured'')]"
              "PyInt 12345" "JStr ''captured''" "one_intent Created"]
  by (simp add: rounding_razorpay_def sample_razorpay_def rounded_payment_def
      sample_verify_request_def params_dict_def sample_intent_def int_div_100_12345)

text \<open>
  Claim C1 as stated fails: with a valid signature and a fetched payment of \<open>10 ^ 311\<close>
  minor units the result carries no amount; the division raises OverflowError and the
  response is 500.
\<close>

theorem verify_amount_overflow:
  "fst (verify_payment_service huge_razorpay no_intents sample_verify_request) =
     (Response 500 (ErrorOf OverflowError),
      [VerifyPaymentSignature sample_verify_request, PaymentFetch (JStr ''pay_1'')])"
  by (simp add: verify_payment_service_def verify_payment_def verify_payment_try_def
      verify_inner_def sample_verify_request_def huge_razorpay_def sample_razorpay_def
      huge_payment_def params_dict_def int_div_100_huge)

text \<open>
  Claim C3, as the code has it. \<^verbatim>\<open>verify_payment\<close> looks no intent up: for every request
  that carries the three identifiers it calls the client's signature check on them first,
  whatever a tracker holds; its response and calls are those of the handler on the
  request and the client alone; and the tracker is left as it was.
\<close>

theorem verify_without_lookup:
  assumes "map_of kvs ''razorpay_order_id'' = Some oid"
      and "map_of kvs ''razorpay_payment_id'' = Some pid"
      and "map_of kvs ''razorpay_signature'' = Some sg"
      and "truthy oid" "truthy pid" "truthy sg"
  shows "snd (verify_payment_service rz tr (JDict kvs)) = tr
       \<and> fst (verify_payment_service rz tr (JDict kvs)) = verify_payment rz (JDict kvs)
       \<and> (\<exists>calls. snd (verify_payment rz (JDict kvs)) =
             VerifyPaymentSignature (params_dict oid pid sg) # calls)"
proof -
  obtain r calls where inner: "verify_inner rz (params_dict oid pid sg) pid = (r, calls)"
    by (cases "verify_inner rz (params_dict oid pid sg) pid")
  obtain calls' where "calls = VerifyPaymentSignature (params_dict oid pid sg) # calls'"
    using verify_inner_first_call [of rz "params_dict oid pid sg" pid] inner by auto
  then have "\<exists>cs. snd (verify_payment rz (JDict kvs)) =
             VerifyPaymentSignature (params_dict oid pid sg) # cs"
    using verify_try_present [OF assms(1-6), of rz] inner
    by (auto simp: verify_payment_def split: sum.splits exn.splits)
  then show ?thesis by (simp add: verify_payment_service_def)
qed

theorem verify_without_lookup_witness:
  "snd (verify_payment_service sample_razorpay no_intents sample_verify_request) = no_intents
   \<and> snd (verify_payment sample_razorpay sample_verify_request) =
       [VerifyPaymentSignature sample_verify_request, PaymentFetch (JStr ''pay_1'')]"
proof -
  have calls: "snd (verify_payment sample_razorpay sample_verify_request) =
       [VerifyPaymentSignature sample_verify_request, PaymentFetch (JStr ''pay_1'')]"
    by (simp add: verify_payment_def verify_payment_try_def verify_inner_def
        sample_verify_request_def sample_razorpay_def sample_payment_def int_div_100_25000 params_dict_def)
  have "snd (verify_payment_service sample_razorpay no_intents
              (JDict [(''razorpay_order_id'', JStr ''order_1''),
                      (''razorpay_payment_id'', JStr ''pay_1''),
                      (''razorpay_signature'', JStr ''sig_1'')])) = no_intents"
    using verify_without_lookup
            [THEN conjunct1,
             of "[(''razorpay_order_id'', JStr ''order_1''),
                  (''razorpay_payment_id'', JStr ''pay_1''),
                  (''razorpay_signature'', JStr ''sig_1'')]"
                "JStr ''order_1''" "JStr ''pay_1''" "JStr ''sig_1''" sample_razorpay no_intents]
    by simp
  then show ?thesis
    using calls by (simp add: sample_verify_request_def)
qed

text \<open>
  Claim C3 as stated fails: with no intent for \<^verbatim>\<open>order_1\<close> the verification is answered
  200, not rejected as an unknown order; and with an intent already \<open>Verified\<close> it is
  answered 200 again, not rejected as finalized.
\<close>

theorem verify_unknown_or_final_order:
  "no_intents (JStr ''order_1'') = None
   \<and> status (fst (fst (verify_payment_service sample_razorpay no_intents
                         sample_verify_request))) = 200
   \<and> map_option state (one_intent Verified (JStr ''order_1'')) = Some Verified
   \<and> status (fst (fst (verify_payment_service sample_razorpay (one_intent Verified)
                         sample_verify_request))) = 200"
  by (simp add: verify_payment_service_def verify_payment_def verify_payment_try_def
      verify_inner_def sample_verify_request_def sample_razorpay_def sample_payment_def int_div_100_25000
      params_dict_def one_intent_def sample_intent_def no_intents_def)

text \<open>
  Claim C8, as the code has it. When the client's signature check raises
  SignatureVerificationError, \<^verbatim>\<open>verify_payment\<close> answers 400 with \<open>success\<close> false and a
  message, not the 500 of a fault; the payment is not fetched; and no intent changes
  state, the tracker being left as it was.
\<close>

theorem verify_signature_mismatch:
  assumes "map_of kvs ''razorpay_order_id'' = Some oid"
      and "map_of kvs ''razorpay_payment_id'' = Some pid"
      and "map_of kvs ''razorpay_signature'' = Some sg"
      and "truthy oid" "truthy pid" "truthy sg"
      and "verify_payment_signature rz (params_dict oid pid sg) = Inl SignatureVerificationError"
  shows "verify_payment_service rz tr (JDict kvs) =
     ((Response 400 (Json
         [(''success'', JNum (PyBool False)),
          (''message'', JStr ''Payment verification failed - Invalid signature'')]),
       [VerifyPaymentSignature (params_dict oid pid sg)]), tr)"
proof -
  have "verify_inner rz (params_dict oid pid sg) pid =
     (Inl SignatureVerificationError, [VerifyPaymentSignature (params_dict oid pid sg)])"
    using assms(7) by (simp add: verify_inner_def)
  then show ?thesis
    using verify_try_present [OF assms(1-6), of rz]
    by (simp add: verify_payment_service_def verify_payment_def)
qed

theorem verify_signature_mismatch_witness:
  "verify_payment_signature rejecting_razorpay sample_verify_request =
     Inl SignatureVerificationError
   \<and> verify_payment_service rejecting_razorpay no_intents sample_verify_request =
     ((Response 400 (Json
         [(''success'', JNum (PyBool False)),
          (''message'', JStr ''Payment verification failed - Invalid signature'')]),
       [VerifyPaymentSignature sample_verify_request]), no_intents)"
  using verify_signature_mismatch
          [of "[(''razorpay_order_id'', JStr ''order_1''),
                (''razorpay_payment_id'', JStr ''pay_1''),
                (''razorpay_signature'', JStr ''sig_1'')]"
              "JStr ''order_1''" "JStr ''pay_1''" "JStr ''sig_1''" rejecting_razorpay
              no_intents]
  by (simp add: rejecting_razorpay_def sample_razorpay_def sample_verify_request_def
      params_dict_def)

text \<open>
  Claim C8 as stated fails: after a verification with a wrong signature for \<^verbatim>\<open>order_1\<close>,
  whose intent is \<open>Created\<close>, the response is the 400 failure and the intent is still
  \<open>Created\<close>, not \<open>Failed\<close>.
\<close>

theorem verify_mismatch_keeps_intent:
  "fst (verify_payment_service rejecting_razorpay (one_intent Created) sample_verify_request) =
     (Response 400 (Json
         [(''success'', JNum (PyBool False)),
          (''message'', JStr ''Payment verification failed - Invalid signature'')]),
      [VerifyPaymentSignature sample_verify_request])
   \<and> map_option state
        (snd (verify_payment_service rejecting_razorpay (one_intent Created)
                sample_verify_request) (JStr ''order_1'')) = Some Created"
  by (simp add: verify_payment_service_def verify_payment_def verify_payment_try_def
      verify_inner_def sample_verify_request_def rejecting_razorpay_def sample_razorpay_def
      params_dict_def one_intent_def sample_intent_def no_intents_def)

end
